theory Spec2Isabelle
  imports Main "HOL-Library.Sublist"
begin

section \<open>The release file name script \<open>.github/build/filename.py\<close>\<close>

text \<open>
  The script reads four positional arguments from \<open>sys.argv\<close> and prints one release
  file name:
  \<^verbatim>\<open>
  OS = sys.argv[1]
  ARCH = sys.argv[2]
  ARM = sys.argv[3]
  MISP = sys.argv[4]

  if (ARM != ""):
    print("Xray-{}-armv{}".format(OS, ARM))
  elif (MISP != ""):
    print("Xray-{}-{}-{}".format(OS, ARCH, MISP))
  else:
    print("Xray-{}-{}".format(OS, ARCH))
  \<close>
  Strings are \<open>string\<close> (lists of characters), \<open>sys.argv\<close> is a \<open>string list\<close> whose
  element 0 is the script's name, an exception is a value, and standard output is a
  field of the state that the statements pass along.
\<close>

subsection \<open>Exceptions and the state\<close>

text \<open>
  \<open>IndexError\<close>, \<open>ValueError\<close> and \<open>UnicodeEncodeError\<close> are Python's. \<open>Unsupported\<close>
  marks a use of \<open>str.format\<close> that is valid Python but outside the part modelled
  below.
\<close>

datatype exn = IndexError | ValueError | Unsupported | UnicodeEncodeError

text \<open>
  The state holds the characters written to standard output so far. Everything else a
  process could touch (files, the environment) is the extension part of the record,
  which the functions below are polymorphic in.
\<close>

record world =
  stdout :: string

subsection \<open>The Python operations the script uses\<close>

text \<open>
  \<open>xs[i]\<close> for a non-negative literal \<open>i\<close>: the element, or IndexError when the list
  is too short.
\<close>

definition getitem :: "'a list \<Rightarrow> nat \<Rightarrow> exn + 'a" where
  "getitem xs i = (if i < length xs then Inr (xs ! i) else Inl IndexError)"

text \<open>
  \<open>template.format(*args)\<close> for string arguments, read left to right. The field \<open>{}\<close>
  is replaced by the next argument, unchanged (IndexError when none is left; unused
  arguments are ignored); \<open>{{\<close> and \<open>}}\<close> stand for one brace; a lone brace is a
  ValueError. Named or numbered fields, conversions and format specifications are not
  modelled; the script's templates have none.
\<close>

fun format :: "string \<Rightarrow> string list \<Rightarrow> exn + string" where
  "format [] args = Inr []"
| "format (c # cs) args =
     (if c = CHR ''{'' then
        (case cs of
           [] \<Rightarrow> Inl ValueError
         | d # ds \<Rightarrow>
             if d = CHR ''}'' then
               (case args of
                  [] \<Rightarrow> Inl IndexError
                | a # as \<Rightarrow>
                    (case format ds as of Inl e \<Rightarrow> Inl e | Inr r \<Rightarrow> Inr (a @ r)))
             else if d = CHR ''{'' then
               (case format ds args of Inl e \<Rightarrow> Inl e | Inr r \<Rightarrow> Inr (CHR ''{'' # r))
             else Inl Unsupported)
      else if c = CHR ''}'' then
        (case cs of
           [] \<Rightarrow> Inl ValueError
         | d # ds \<Rightarrow>
             if d = CHR ''}'' then
               (case format ds args of Inl e \<Rightarrow> Inl e | Inr r \<Rightarrow> Inr (CHR ''}'' # r))
             else Inl ValueError)
      else (case format cs args of Inl e \<Rightarrow> Inl e | Inr r \<Rightarrow> Inr (c # r)))"

text \<open>
  \<open>print(s)\<close> on a standard output that takes every text as it is: the string and a
  newline are appended. The stream with its codec and its device, where the write can
  fail, follows below (\<open>print_io\<close>).
\<close>

definition print :: "string \<Rightarrow> 'a world_scheme \<Rightarrow> 'a world_scheme" where
  "print s w = w\<lparr>stdout := stdout w @ s @ ''\<newline>''\<rparr>"

subsection \<open>Statements\<close>

text \<open>
  A statement maps the state to the exception it raised, if any, and the state it
  reached. \<open>assign e k\<close> is the assignment \<open>X = e\<close> followed by the rest \<open>k\<close> of the
  program, which sees the value as \<open>X\<close>; \<open>print_stmt e\<close> is \<open>print(e)\<close>. In both, an
  exception raised by the expression \<open>e\<close> ends the execution in the current state.
\<close>

definition assign ::
  "exn + 'v \<Rightarrow> ('v \<Rightarrow> 'w \<Rightarrow> exn option \<times> 'w) \<Rightarrow> 'w \<Rightarrow> exn option \<times> 'w" where
  "assign e k w = (case e of Inl x \<Rightarrow> (Some x, w) | Inr v \<Rightarrow> k v w)"

definition print_stmt :: "exn + string \<Rightarrow> 'a world_scheme \<Rightarrow> exn option \<times> 'a world_scheme" where
  "print_stmt e w = (case e of Inl x \<Rightarrow> (Some x, w) | Inr s \<Rightarrow> (None, print s w))"

subsection \<open>The script\<close>

definition script :: "string list \<Rightarrow> 'a world_scheme \<Rightarrow> exn option \<times> 'a world_scheme" where
  "script argv =
     assign (getitem argv 1) (\<lambda>OS.
     assign (getitem argv 2) (\<lambda>ARCH.
     assign (getitem argv 3) (\<lambda>ARM.
     assign (getitem argv 4) (\<lambda>MISP.
       if ARM \<noteq> '''' then
         print_stmt (format ''Xray-{}-armv{}'' [OS, ARM])
       else if MISP \<noteq> '''' then
         print_stmt (format ''Xray-{}-{}-{}'' [OS, ARCH, MISP])
       else
         print_stmt (format ''Xray-{}-{}'' [OS, ARCH])))))"

text \<open>
  The interpreter ends with exit status 0 when the script runs to its end and with
  exit status 1 when an exception is not caught.
\<close>

definition exit_status :: "exn option \<Rightarrow> nat" where
  "exit_status r = (case r of None \<Rightarrow> 0 | Some e \<Rightarrow> 1)"

text \<open>
  What the caller of the program observes: the exit status and the contents of standard
  output at the end.
\<close>

definition run :: "string list \<Rightarrow> 'a world_scheme \<Rightarrow> nat \<times> string" where
  "run argv w = (case script argv w of (r, w') \<Rightarrow> (exit_status r, stdout w'))"

subsection \<open>Standard output as a stream\<close>

text \<open>
  \<open>print\<close> above is Python's \<open>print\<close> on a standard output that takes every text as
  it is. Python's standard output is a text stream over a buffer over a device. A
  write encodes the text with the stream's codec (its encoding, error handler and
  newline translation) and raises UnicodeEncodeError when the codec cannot encode it.
  The encoded bytes wait in the buffer: standard output is taken to be open and
  block-buffered, as it is on a pipe or a file. The interpreter passes the bytes to the
  device when it flushes the stream at exit; when the device rejects them, it reports
  the OSError and ends with exit status 120. The codec and the device are not the
  script's: they are fields of the state, next to what the device holds (\<open>stdout\<close>)
  and the encoded pieces that wait in the buffer, one for each write (\<open>pending\<close>).
\<close>

record stream = world +
  codec :: "string \<Rightarrow> string option"
  accepts :: bool
  pending :: "string list"


definition latin_1 :: "string \<Rightarrow> string option" where
  "latin_1 s = Some s"

text \<open>\<open>sys.stdout.write(s)\<close>: encode, then buffer.\<close>

definition write_text :: "string \<Rightarrow> 'a stream_scheme \<Rightarrow> exn option \<times> 'a stream_scheme" where
  "write_text s w =
     (case codec w s of
        None \<Rightarrow> (Some UnicodeEncodeError, w)
      | Some b \<Rightarrow> (None, w\<lparr>pending := pending w @ [b]\<rparr>))"

text \<open>\<open>print(s)\<close> writes the string and then, in a second write, the line end.\<close>

definition print_io :: "string \<Rightarrow> 'a stream_scheme \<Rightarrow> exn option \<times> 'a stream_scheme" where
  "print_io s w =
     (case write_text s w of
        (Some e, w') \<Rightarrow> (Some e, w')
      | (None, w') \<Rightarrow> write_text ''\<newline>'' w')"

definition print_stmt_io ::
  "exn + string \<Rightarrow> 'a stream_scheme \<Rightarrow> exn option \<times> 'a stream_scheme" where
  "print_stmt_io e w = (case e of Inl x \<Rightarrow> (Some x, w) | Inr s \<Rightarrow> print_io s w)"

text \<open>The script, statement by statement as above, on the stream.\<close>

definition script_io :: "string list \<Rightarrow> 'a stream_scheme \<Rightarrow> exn option \<times> 'a stream_scheme" where
  "script_io argv =
     assign (getitem argv 1) (\<lambda>OS.
     assign (getitem argv 2) (\<lambda>ARCH.
     assign (getitem argv 3) (\<lambda>ARM.
     assign (getitem argv 4) (\<lambda>MISP.
       if ARM \<noteq> '''' then
         print_stmt_io (format ''Xray-{}-armv{}'' [OS, ARM])
       else if MISP \<noteq> '''' then
         print_stmt_io (format ''Xray-{}-{}-{}'' [OS, ARCH, MISP])
       else
         print_stmt_io (format ''Xray-{}-{}'' [OS, ARCH])))))"

text \<open>
  The flush at exit: nothing to do when no byte waits; otherwise the device takes the
  bytes or rejects them. The result tells whether the flush succeeded.
\<close>

definition flush :: "'a stream_scheme \<Rightarrow> bool \<times> 'a stream_scheme" where
  "flush w =
     (if concat (pending w) = [] then (True, w\<lparr>pending := []\<rparr>)
      else if accepts w then (True, w\<lparr>stdout := stdout w @ concat (pending w), pending := []\<rparr>)
      else (False, w))"

text \<open>
  The end of a run: the interpreter flushes standard output. The exit status is 120
  when the flush fails, and otherwise 1 after an uncaught exception and 0 without. The
  caller observes the exit status and what the device holds.
\<close>

definition finalize :: "exn option \<Rightarrow> 'a stream_scheme \<Rightarrow> nat \<times> string" where
  "finalize r w =
     (case flush w of (ok, w') \<Rightarrow> (if ok then exit_status r else 120, stdout w'))"

text \<open>A run of the program: the interpreter starts with an empty buffer.\<close>

definition run_io :: "string list \<Rightarrow> 'a stream_scheme \<Rightarrow> nat \<times> string" where
  "run_io argv w = (case script_io argv (w\<lparr>pending := []\<rparr>) of (r, w') \<Rightarrow> finalize r w')"

section \<open>Properties\<close>

subsection \<open>The two shapes of an execution\<close>

text \<open>The three templates, evaluated.\<close>

lemma format_arm: "format ''Xray-{}-armv{}'' [a, b] = Inr (''Xray-'' @ a @ ''-armv'' @ b)"
  by simp

lemma format_misp:
  "format ''Xray-{}-{}-{}'' [a, b, c] = Inr (''Xray-'' @ a @ ''-'' @ b @ ''-'' @ c)"
  by simp

lemma format_default: "format ''Xray-{}-{}'' [a, b] = Inr (''Xray-'' @ a @ ''-'' @ b)"
  by simp

text \<open>With the script's name and four arguments or more, one \<open>print\<close> is executed.\<close>

lemma script_five:
  "script (prog # OS # ARCH # ARM # MISP # rest) w =
     (None, print
       (if ARM \<noteq> '''' then ''Xray-'' @ OS @ ''-armv'' @ ARM
        else if MISP \<noteq> '''' then ''Xray-'' @ OS @ ''-'' @ ARCH @ ''-'' @ MISP
        else ''Xray-'' @ OS @ ''-'' @ ARCH) w)"
  unfolding script_def assign_def print_stmt_def getitem_def
  by (simp only: format_arm format_misp format_default) simp

text \<open>With fewer, the first subscript that is out of range raises IndexError.\<close>

lemma script_short: "length argv < 5 \<Longrightarrow> script argv w = (Some IndexError, w)"
  unfolding script_def assign_def getitem_def
  by simp

lemma five_or_more:
  assumes "5 \<le> length argv"
  obtains prog OS ARCH ARM MISP rest where "argv = prog # OS # ARCH # ARM # MISP # rest"
proof -
  from assms obtain prog t1 where 1: "argv = prog # t1" by (cases argv) auto
  with assms obtain OS t2 where 2: "t1 = OS # t2" by (cases t1) auto
  with 1 assms obtain ARCH t3 where 3: "t2 = ARCH # t3" by (cases t2) auto
  with 1 2 assms obtain ARM t4 where 4: "t3 = ARM # t4" by (cases t3) auto
  with 1 2 3 assms obtain MISP rest where 5: "t4 = MISP # rest" by (cases t4) auto
  from 1 2 3 4 5 that show thesis by simp
qed

text \<open>What the caller observes in the two cases.\<close>

lemma run_five:
  "run (prog # OS # ARCH # ARM # MISP # rest) w =
     (0, stdout w @
       (if ARM \<noteq> '''' then ''Xray-'' @ OS @ ''-armv'' @ ARM
        else if MISP \<noteq> '''' then ''Xray-'' @ OS @ ''-'' @ ARCH @ ''-'' @ MISP
        else ''Xray-'' @ OS @ ''-'' @ ARCH) @ ''\<newline>'')"
  by (simp add: run_def script_five print_def exit_status_def)

lemma run_short: "length argv < 5 \<Longrightarrow> run argv w = (1, stdout w)"
  by (simp add: run_def script_short exit_status_def)

subsection \<open>The three branches\<close>

text \<open>
  C1. When the arm argument is not the empty string, the program prints
  \<open>Xray-{os}-armv{arm}\<close> and a newline and ends with exit status 0, for every os, arch
  and variant: the arm branch comes before the variant branch, and neither arch nor
  variant occurs in what is printed.
\<close>

theorem arm_branch:
  assumes "ARM \<noteq> ''''"
  shows "run (prog # OS # ARCH # ARM # MISP # rest) w =
           (0, stdout w @ ''Xray-'' @ OS @ ''-armv'' @ ARM @ ''\<newline>'')"
  using assms by (simp add: run_five)

theorem arm_branch_witness:
  "''7'' \<noteq> '''' \<and>
   run [''filename.py'', ''linux'', ''arm'', ''7'', ''softfloat''] \<lparr>stdout = ''''\<rparr> =
     (0, ''Xray-linux-armv7\<newline>'')"
proof -
  have arm: "''7'' \<noteq> ''''" by simp
  from arm_branch [OF arm, where prog = "''filename.py''" and OS = "''linux''"
      and ARCH = "''arm''" and MISP = "''softfloat''" and rest = "[]"
      and w = "\<lparr>stdout = ''''\<rparr>"]
  show ?thesis by simp
qed

text \<open>
  C2. When the arm argument is the empty string and the variant argument is not, the
  program prints \<open>Xray-{os}-{arch}-{variant}\<close> and a newline and ends with exit status
  0, for every os and arch.
\<close>

theorem variant_branch:
  assumes "ARM = ''''" and "MISP \<noteq> ''''"
  shows "run (prog # OS # ARCH # ARM # MISP # rest) w =
           (0, stdout w @ ''Xray-'' @ OS @ ''-'' @ ARCH @ ''-'' @ MISP @ ''\<newline>'')"
  using assms by (simp add: run_five)

theorem variant_branch_witness:
  "'''' = '''' \<and> ''softfloat'' \<noteq> '''' \<and>
   run [''filename.py'', ''linux'', ''mips'', '''', ''softfloat''] \<lparr>stdout = ''''\<rparr> =
     (0, ''Xray-linux-mips-softfloat\<newline>'')"
proof -
  have arm: "'''' = (''''::string)" by simp
  have misp: "''softfloat'' \<noteq> ''''" by simp
  from variant_branch [OF arm misp, where prog = "''filename.py''" and OS = "''linux''"
      and ARCH = "''mips''" and rest = "[]" and w = "\<lparr>stdout = ''''\<rparr>"]
  show ?thesis by simp
qed

text \<open>
  C3. When both the arm and the variant argument are the empty string, the program
  prints \<open>Xray-{os}-{arch}\<close> and a newline and ends with exit status 0, for every os
  and arch.
\<close>

theorem default_branch:
  "run (prog # OS # ARCH # '''' # '''' # rest) w =
     (0, stdout w @ ''Xray-'' @ OS @ ''-'' @ ARCH @ ''\<newline>'')"
  by (simp add: run_five)

text \<open>
  C8. With the arguments \<open>windows\<close>, \<open>386\<close>, \<open>7\<close> and the empty string the program
  prints \<open>Xray-windows-armv7\<close>; the arch argument \<open>386\<close> is no part of that line.
\<close>

theorem windows_386_arm_7:
  "run [prog, ''windows'', ''386'', ''7'', ''''] w = (0, stdout w @ ''Xray-windows-armv7\<newline>'') \<and>
   \<not> sublist ''386'' ''Xray-windows-armv7\<newline>''"
proof
  show "run [prog, ''windows'', ''386'', ''7'', ''''] w =
          (0, stdout w @ ''Xray-windows-armv7\<newline>'')"
    by (simp add: run_five)
  show "\<not> sublist ''386'' ''Xray-windows-armv7\<newline>''"
    by code_simp
qed

subsection \<open>Further arguments and the form of the name\<close>

text \<open>
  C9. Arguments after the fourth are ignored: with any further arguments the program
  writes the same output and ends with the same exit status (and reaches the same
  state) as with the first four alone.
\<close>

theorem further_arguments_ignored:
  "run (prog # OS # ARCH # ARM # MISP # rest) w = run [prog, OS, ARCH, ARM, MISP] w \<and>
   script (prog # OS # ARCH # ARM # MISP # rest) w = script [prog, OS, ARCH, ARM, MISP] w"
  by (simp only: run_five script_five)

text \<open>
  C10. With four positional arguments or more, what the program writes starts with
  \<open>Xray-\<close>, whatever the arguments are, also when all four are empty; the arguments
  are copied into the output as they are.
\<close>

theorem xray_prefix:
  "(\<exists>t. run (prog # OS # ARCH # ARM # MISP # rest) w = (0, stdout w @ ''Xray-'' @ t)) \<and>
   run (prog # OS # ARCH # ARM # MISP # rest) w =
     (0, stdout w @ ''Xray-'' @ OS @ ''-'' @
       (if ARM \<noteq> '''' then ''armv'' @ ARM
        else if MISP \<noteq> '''' then ARCH @ ''-'' @ MISP
        else ARCH) @ ''\<newline>'') \<and>
   run [prog, '''', '''', '''', ''''] w = (0, stdout w @ ''Xray--\<newline>'')"
  by (simp add: run_five)

subsection \<open>The run on the stream\<close>

text \<open>With four arguments or more the script is one \<open>print\<close>, of the formatted name.\<close>

lemma script_io_five:
  "script_io (prog # OS # ARCH # ARM # MISP # rest) w =
     print_io
       (if ARM \<noteq> '''' then ''Xray-'' @ OS @ ''-armv'' @ ARM
        else if MISP \<noteq> '''' then ''Xray-'' @ OS @ ''-'' @ ARCH @ ''-'' @ MISP
        else ''Xray-'' @ OS @ ''-'' @ ARCH) w"
  unfolding script_io_def assign_def print_stmt_io_def getitem_def
  by (simp only: format_arm format_misp format_default) simp

lemma script_io_short: "length argv < 5 \<Longrightarrow> script_io argv w = (Some IndexError, w)"
  unfolding script_io_def assign_def getitem_def
  by simp



lemma print_io_encoded:
  "codec w s = Some body \<Longrightarrow> codec w ''\<newline>'' = Some eol \<Longrightarrow>
   print_io s w = (None, w\<lparr>pending := pending w @ [body, eol]\<rparr>)"
  by (simp add: print_io_def write_text_def)

text \<open>A run with fewer than four arguments, and the ways a run with four can end.\<close>

lemma run_io_short: "length argv < 5 \<Longrightarrow> run_io argv w = (1, stdout w)"
  by (simp add: run_io_def script_io_short finalize_def flush_def exit_status_def)

lemma run_io_five:
  "run_io (prog # OS # ARCH # ARM # MISP # rest) w =
     (case print_io
        (if ARM \<noteq> '''' then ''Xray-'' @ OS @ ''-armv'' @ ARM
         else if MISP \<noteq> '''' then ''Xray-'' @ OS @ ''-'' @ ARCH @ ''-'' @ MISP
         else ''Xray-'' @ OS @ ''-'' @ ARCH) (w\<lparr>pending := []\<rparr>) of
        (r, w') \<Rightarrow> finalize r w')"
  by (simp only: run_io_def script_io_five)


lemma print_encoded_run:
  assumes "codec w s = Some body" and "codec w ''\<newline>'' = Some eol"
  shows "(case print_io s (w\<lparr>pending := []\<rparr>) of (r, w') \<Rightarrow> finalize r w') =
           (if body @ eol = [] then (0, stdout w)
            else if accepts w then (0, stdout w @ body @ eol)
            else (120, stdout w))"
proof -
  from assms have "codec (w\<lparr>pending := []\<rparr>) s = Some body"
    and "codec (w\<lparr>pending := []\<rparr>) ''\<newline>'' = Some eol" by simp_all
  then have "print_io s (w\<lparr>pending := []\<rparr>) =
               (None, w\<lparr>pending := []\<rparr>\<lparr>pending := pending (w\<lparr>pending := []\<rparr>) @ [body, eol]\<rparr>)"
    by (rule print_io_encoded)
  then show ?thesis by (simp add: finalize_def flush_def exit_status_def)
qed


text \<open>
  On a stream whose codec is \<open>latin_1\<close> and whose device accepts, the run is the run on
  a standard output that takes every text as it is.
\<close>

lemma run_io_plain:
  assumes "codec w = latin_1" and "accepts w"
  shows "run_io argv w = run argv w"
proof (cases "length argv < 5")
  case True
  then show ?thesis by (simp add: run_io_short run_short)
next
  case False
  then have "5 \<le> length argv" by simp
  then obtain prog OS ARCH ARM MISP rest
    where argv: "argv = prog # OS # ARCH # ARM # MISP # rest" by (rule five_or_more)
  have enc: "codec w s = Some s" for s using assms(1) by (simp add: latin_1_def)
  show ?thesis
    unfolding argv run_io_five run_five
    using assms(2) by (simp add: print_encoded_run [OF enc enc])
qed



subsection \<open>The number of arguments and the failures of a run\<close>







subsection \<open>What the output depends on\<close>




subsection \<open>The effect of a run\<close>




end
